theory Spec2Isabelle
  imports Complex_Main
begin

section \<open>JavaScript numbers and the conversions \<open>Number(key)\<close> and \<open>String(num)\<close>\<close>

text \<open>
  The index test of \<open>_validateObject\<close> and \<open>optimize\<close> is
  \<^verbatim>\<open>const num = Number(key); !isNaN(num) && num >= 0 && String(num) === key\<close>.
  \<open>Number\<close>, \<open>isNaN\<close> and \<open>String\<close> are built-ins of the platform. They are modelled
  after ECMAScript: a number is NaN, an infinity or a finite binary64 value, held as the
  magnitude it denotes together with its sign bit (so that \<open>-0\<close> is a value of its own).
  Key strings are lists of 8-bit characters (code units below 256).
\<close>

datatype jsnumber = NaN | Infinite bool | Finite bool real

definition pow2 :: "int \<Rightarrow> real" where
  "pow2 e = (if 0 \<le> e then 2 ^ nat e else 1 / 2 ^ nat (- e))"

definition pow10 :: "int \<Rightarrow> real" where
  "pow10 e = (if 0 \<le> e then 10 ^ nat e else 1 / 10 ^ nat (- e))"

text \<open>The number of digits of a positive integer in base \<open>b\<close>.\<close>

function numDigits :: "int \<Rightarrow> int \<Rightarrow> int" where
  "numDigits b x = (if x \<le> 0 \<or> b \<le> 1 then 0 else 1 + numDigits b (x div b))"
  by pat_completeness auto
termination
proof (relation "measure (\<lambda>(b, x). nat x)")
  show "wf (measure (\<lambda>(b :: int, x :: int). nat x))" by simp
next
  fix b x :: int
  assume "\<not> (x \<le> 0 \<or> b \<le> 1)"
  then have "0 < x" and "1 < b" by simp_all
  then have "x div b < x" by (rule int_div_less_self)
  with \<open>0 < x\<close> show "((b, x div b), (b, x)) \<in> measure (\<lambda>(b, x). nat x)"
    by (simp add: pos_imp_zdiv_nonneg_iff)
qed

text \<open>
  For \<open>q > 0\<close>: the integer \<open>e\<close> with \<open>b ^ e \<le> q < b ^ (e + 1)\<close>, for \<open>b\<close> 2 and 10. Below 1
  it is the least \<open>k\<close> with \<open>1 / q \<le> b ^ k\<close>, negated.
\<close>

definition floorlog2 :: "real \<Rightarrow> int" where
  "floorlog2 q = (if 1 \<le> q then numDigits 2 \<lfloor>q\<rfloor> - 1 else - numDigits 2 (\<lceil>1 / q\<rceil> - 1))"

definition floorlog10 :: "real \<Rightarrow> int" where
  "floorlog10 q = (if 1 \<le> q then numDigits 10 \<lfloor>q\<rfloor> - 1 else - numDigits 10 (\<lceil>1 / q\<rceil> - 1))"

text \<open>Rounding to the nearest integer, a tie to the even one; \<open>f\<close> is the floor of \<open>x\<close>.\<close>

definition roundFrom :: "int \<Rightarrow> real \<Rightarrow> int" where
  "roundFrom f x =
     (if x - of_int f < 1 / 2 then f
      else if 1 / 2 < x - of_int f then f + 1
      else if even f then f else f + 1)"

definition round_half_even :: "real \<Rightarrow> int" where
  "round_half_even x = roundFrom \<lfloor>x\<rfloor> x"

text \<open>
  Rounding of a non-negative number to binary64, round-to-nearest, ties to even:
  53 bits of significand at the exponent \<open>e\<close> of the last place, which is at least \<open>-1074\<close>;
  overflow to infinity when the rounded value reaches \<open>2 ^ 1024\<close>.
\<close>

definition overflow :: "bool \<Rightarrow> real \<Rightarrow> jsnumber" where
  "overflow neg v = (if 1024 \<le> floorlog2 v then Infinite neg else Finite neg v)"

definition roundAt :: "bool \<Rightarrow> real \<Rightarrow> int \<Rightarrow> jsnumber" where
  "roundAt neg q e = overflow neg (of_int (round_half_even (q / pow2 e)) * pow2 e)"

definition round64 :: "bool \<Rightarrow> real \<Rightarrow> jsnumber" where
  "round64 neg q =
     (if q \<le> 0 then Finite neg 0 else roundAt neg q (max (floorlog2 q - 52) (- 1074)))"

subsection \<open>\<open>Number(string)\<close>: StringToNumber\<close>

definition isDigit :: "char \<Rightarrow> bool" where
  "isDigit c = (48 \<le> (of_char c :: int) \<and> (of_char c :: int) \<le> 57)"

definition isWhiteSpace :: "char \<Rightarrow> bool" where
  "isWhiteSpace c = ((of_char c :: int) \<in> {9, 10, 11, 12, 13, 32, 160})"

definition trimString :: "string \<Rightarrow> string" where
  "trimString s = rev (dropWhile isWhiteSpace (rev (dropWhile isWhiteSpace s)))"

definition digitsValue :: "int \<Rightarrow> (char \<Rightarrow> int) \<Rightarrow> string \<Rightarrow> int" where
  "digitsValue base dv s = foldl (\<lambda>acc c. acc * base + dv c) 0 s"

definition decDigit :: "char \<Rightarrow> int" where
  "decDigit c = of_char c - 48"

definition hexDigit :: "char \<Rightarrow> int" where
  "hexDigit c =
     (if 48 \<le> (of_char c :: int) \<and> (of_char c :: int) \<le> 57 then of_char c - 48
      else if 97 \<le> (of_char c :: int) \<and> (of_char c :: int) \<le> 102 then of_char c - 87
      else if 65 \<le> (of_char c :: int) \<and> (of_char c :: int) \<le> 70 then of_char c - 55
      else 16)"

text \<open>Digits of a non-decimal literal in the given base; \<open>None\<close> when a character is no digit of it.\<close>

definition radixValue :: "int \<Rightarrow> string \<Rightarrow> int option" where
  "radixValue base s =
     (if s \<noteq> [] \<and> list_all (\<lambda>c. hexDigit c < base) s
      then Some (digitsValue base hexDigit s)
      else None)"

definition decimalDigits :: "string \<Rightarrow> int option" where
  "decimalDigits ds =
     (if ds \<noteq> [] \<and> list_all isDigit ds then Some (digitsValue 10 decDigit ds) else None)"

text \<open>\<open>SignedInteger\<close>: an optional sign and at least one digit.\<close>

definition signedInteger :: "string \<Rightarrow> int option" where
  "signedInteger s =
     (case s of
        [] \<Rightarrow> None
      | c # t \<Rightarrow>
          if c = CHR ''-'' then map_option uminus (decimalDigits t)
          else if c = CHR ''+'' then decimalDigits t
          else decimalDigits s)"

text \<open>\<open>ExponentPart\<close>, when there is one: what follows the digits of the mantissa.\<close>

definition exponentPart :: "string \<Rightarrow> int option" where
  "exponentPart r =
     (case r of
        [] \<Rightarrow> Some 0
      | c # t \<Rightarrow> if c = CHR ''e'' \<or> c = CHR ''E'' then signedInteger t else None)"

text \<open>
  The value of a decimal literal with integer digits \<open>ip\<close>, fraction digits \<open>fp\<close> and exponent
  \<open>ex\<close>; one of \<open>ip\<close> and \<open>fp\<close> has a digit.
\<close>

definition decimalValue :: "string \<Rightarrow> string \<Rightarrow> int option \<Rightarrow> real option option" where
  "decimalValue ip fp ex =
     (if ip = [] \<and> fp = [] then None
      else case ex of
             None \<Rightarrow> None
           | Some x \<Rightarrow>
               Some (Some (of_int (digitsValue 10 decDigit (ip @ fp)) * pow10 (x - int (length fp)))))"

definition afterInteger :: "string \<Rightarrow> string \<Rightarrow> real option option" where
  "afterInteger ip r =
     (case r of
        [] \<Rightarrow> decimalValue ip [] (Some 0)
      | c # t \<Rightarrow>
          if c = CHR ''.''
          then decimalValue ip (takeWhile isDigit t) (exponentPart (dropWhile isDigit t))
          else decimalValue ip [] (exponentPart r))"

text \<open>
  \<open>StrUnsignedDecimalLiteral\<close>: \<open>Some (Some q)\<close> for a literal of exact value \<open>q\<close>,
  \<open>Some None\<close> for \<open>Infinity\<close>, \<open>None\<close> when the string is no such literal.
\<close>

definition unsignedDecimal :: "string \<Rightarrow> real option option" where
  "unsignedDecimal s =
     (if s = ''Infinity'' then Some None
      else afterInteger (takeWhile isDigit s) (dropWhile isDigit s))"

definition signedDecimal :: "bool \<Rightarrow> string \<Rightarrow> jsnumber" where
  "signedDecimal neg u =
     (case unsignedDecimal u of
        None \<Rightarrow> NaN
      | Some None \<Rightarrow> Infinite neg
      | Some (Some q) \<Rightarrow> round64 neg q)"

text \<open>The base of a literal that starts with \<open>0x\<close>, \<open>0o\<close> or \<open>0b\<close> in either case.\<close>

definition radixPrefix :: "string \<Rightarrow> int option" where
  "radixPrefix s =
     (case s of
        c # d # t \<Rightarrow>
          if c \<noteq> CHR ''0'' then None
          else if d = CHR ''x'' \<or> d = CHR ''X'' then Some 16
          else if d = CHR ''o'' \<or> d = CHR ''O'' then Some 8
          else if d = CHR ''b'' \<or> d = CHR ''B'' then Some 2
          else None
      | _ \<Rightarrow> None)"

definition radixLiteral :: "int \<Rightarrow> string \<Rightarrow> jsnumber" where
  "radixLiteral base ds =
     (case radixValue base ds of None \<Rightarrow> NaN | Some n \<Rightarrow> round64 False (of_int n))"

definition stringToNumber :: "string \<Rightarrow> jsnumber" where
  "stringToNumber s =
     (case s of
        [] \<Rightarrow> Finite False 0
      | c # t \<Rightarrow>
          (case radixPrefix s of
             Some base \<Rightarrow> radixLiteral base (drop 2 s)
           | None \<Rightarrow>
               if c = CHR ''-'' then signedDecimal True t
               else if c = CHR ''+'' then signedDecimal False t
               else signedDecimal False s))"

definition Number :: "string \<Rightarrow> jsnumber" where
  "Number key = stringToNumber (trimString key)"

definition isNaN :: "jsnumber \<Rightarrow> bool" where
  "isNaN num = (num = NaN)"

text \<open>\<open>num >= 0\<close>: false for NaN, true for both zeros.\<close>

definition geZero :: "jsnumber \<Rightarrow> bool" where
  "geZero num =
     (case num of NaN \<Rightarrow> False | Infinite neg \<Rightarrow> \<not> neg | Finite neg q \<Rightarrow> q = 0 \<or> \<not> neg)"

subsection \<open>\<open>String(number)\<close>: Number::toString in radix 10\<close>

definition digitChar :: "int \<Rightarrow> char" where
  "digitChar d = ''0123456789'' ! nat d"

function showDigits :: "int \<Rightarrow> string \<Rightarrow> string" where
  "showDigits n acc =
     (if n < 10 then digitChar n # acc
      else showDigits (n div 10) (digitChar (n mod 10) # acc))"
  by pat_completeness auto
termination
  by (relation "measure (\<lambda>(n, acc). nat n)") auto

text \<open>The decimal digits of a non-negative integer.\<close>

definition decimal :: "int \<Rightarrow> string" where
  "decimal n = showDigits n []"

text \<open>
  Number::toString writes a finite \<open>v > 0\<close> with the digits of the integer \<open>s\<close> of least
  length \<open>k\<close> for which some \<open>s * 10 ^ p\<close> rounds to \<open>v\<close>, taking the \<open>s * 10 ^ p\<close> closest to
  \<open>v\<close>. At \<open>k\<close> digits the scale is \<open>p = floorlog10 v + 1 - k\<close>, and the two integers around
  \<open>v / 10 ^ p\<close> are the candidates (the upper one may be \<open>10 ^ k\<close>, a shorter number).
\<close>

definition roundsTo :: "real \<Rightarrow> int \<Rightarrow> int \<Rightarrow> bool" where
  "roundsTo v p s = (round64 False (of_int s * pow10 p) = Finite False v)"

definition candidatesFrom :: "real \<Rightarrow> int \<Rightarrow> int \<Rightarrow> int list" where
  "candidatesFrom v p lo = filter (roundsTo v p) [lo, lo + 1]"

definition scale :: "real \<Rightarrow> int \<Rightarrow> int" where
  "scale v k = floorlog10 v + 1 - k"

definition candidates :: "real \<Rightarrow> int \<Rightarrow> int list" where
  "candidates v k = candidatesFrom v (scale v k) \<lfloor>v / pow10 (scale v k)\<rfloor>"

text \<open>Of two candidates the one closer to \<open>v\<close>, the even one when they are as close.\<close>

definition closer :: "real \<Rightarrow> real \<Rightarrow> int \<Rightarrow> int \<Rightarrow> int" where
  "closer ds dt s t = (if ds < dt then s else if dt < ds then t else if even s then s else t)"

definition closest :: "real \<Rightarrow> int \<Rightarrow> int list \<Rightarrow> int" where
  "closest v p ss =
     (case ss of
        [] \<Rightarrow> \<lfloor>v / pow10 p\<rfloor>
      | s # r \<Rightarrow>
          (case r of
             [] \<Rightarrow> s
           | t # r' \<Rightarrow> closer \<bar>v - of_int s * pow10 p\<bar> \<bar>v - of_int t * pow10 p\<bar> s t))"

text \<open>The least number of digits with a candidate; seventeen always have one.\<close>

fun searchDigits :: "real \<Rightarrow> int list \<Rightarrow> int" where
  "searchDigits v [] = 17"
| "searchDigits v (k # ks) = (case candidates v k of [] \<Rightarrow> searchDigits v ks | s # r \<Rightarrow> k)"

text \<open>
  The digits without their trailing zeros, and the position \<open>n\<close> of the decimal point
  after the first of them: \<open>v\<close> is written \<open>0.digits * 10 ^ n\<close>.
\<close>

definition digitsAndPoint :: "string \<Rightarrow> int \<Rightarrow> string \<times> int" where
  "digitsAndPoint ds p = (rev (dropWhile (\<lambda>c. c = CHR ''0'') (rev ds)), p + int (length ds))"

definition shortestAt :: "real \<Rightarrow> int \<Rightarrow> string \<times> int" where
  "shortestAt v k = digitsAndPoint (decimal (closest v (scale v k) (candidates v k))) (scale v k)"

definition shortest :: "real \<Rightarrow> string \<times> int" where
  "shortest v =
     shortestAt v (searchDigits v [1, 2, 3, 4, 5, 6, 7, 8, 9, 10, 11, 12, 13, 14, 15, 16, 17])"

definition exponential :: "string \<Rightarrow> int \<Rightarrow> int \<Rightarrow> string" where
  "exponential ds k e =
     (if k = 1 then ds @ ''e'' @ (if e < 0 then ''-'' else ''+'') @ decimal \<bar>e\<bar>
      else hd ds # ''.'' @ tl ds @ ''e'' @ (if e < 0 then ''-'' else ''+'') @ decimal \<bar>e\<bar>)"

definition layout :: "string \<Rightarrow> int \<Rightarrow> int \<Rightarrow> string" where
  "layout ds k n =
     (if k \<le> n \<and> n \<le> 21 then ds @ replicate (nat (n - k)) CHR ''0''
      else if 0 < n \<and> n \<le> 21 then take (nat n) ds @ ''.'' @ drop (nat n) ds
      else if - 6 < n \<and> n \<le> 0 then ''0.'' @ replicate (nat (- n)) CHR ''0'' @ ds
      else exponential ds k (n - 1))"

fun format :: "string \<times> int \<Rightarrow> string" where
  "format (ds, n) = layout ds (int (length ds)) n"

definition toString :: "real \<Rightarrow> string" where
  "toString v = format (shortest v)"

definition String :: "jsnumber \<Rightarrow> string" where
  "String num =
     (case num of
        NaN \<Rightarrow> ''NaN''
      | Infinite neg \<Rightarrow> (if neg then ''-Infinity'' else ''Infinity'')
      | Finite neg q \<Rightarrow>
          if q = 0 then ''0''
          else if neg then ''-'' @ toString q
          else toString q)"

text \<open>The test of the source: \<^verbatim>\<open>!isNaN(num) && num >= 0 && String(num) === key\<close>.\<close>

definition numberTest :: "jsnumber \<Rightarrow> string \<Rightarrow> bool" where
  "numberTest num key = (\<not> isNaN num \<and> geZero num \<and> String num = key)"

definition isIndexedKey :: "string \<Rightarrow> bool" where
  "isIndexedKey key = numberTest (Number key) key"

section \<open>Values\<close>

text \<open>
  The values handed to the class are finite trees. An array is the list of its elements.
  An object carries what the code reads of it: its prototype, its own string-keyed data
  properties in the order \<open>Object.getOwnPropertyNames\<close> lists them (keys distinct), each
  with its value and its \<open>enumerable\<close> attribute, and its own symbol keys. A prototype is the
  default \<open>Object.prototype\<close>, the default \<open>Array.prototype\<close>, \<open>null\<close>, or another
  object, of which the code reads only the property \<open>toJSON\<close>: \<open>OtherPrototype f\<close> is a
  prototype \<open>proto\<close> with \<open>proto.toJSON\<close> evaluating to \<open>f\<close>. The default prototypes
  have no \<open>toJSON\<close>. Accessor properties, proxies, array holes and the accessor
  \<open>__proto__\<close> are outside this model.
\<close>

datatype jsval =
    JUndefined
  | JNull
  | JBoolean bool
  | JNumber jsnumber
  | JString string
  | JSymbol nat
  | JBigInt int
  | JFunction nat
  | JArray "jsval list"
  | JObject proto "property list" "nat list"
and property = Prop (pkey: string) (pval: jsval) (penumerable: bool)
and proto = ObjectPrototype | ArrayPrototype | NullPrototype | OtherPrototype jsval

fun typeof :: "jsval \<Rightarrow> string" where
  "typeof JUndefined = ''undefined''"
| "typeof JNull = ''object''"
| "typeof (JBoolean b) = ''boolean''"
| "typeof (JNumber n) = ''number''"
| "typeof (JString s) = ''string''"
| "typeof (JSymbol i) = ''symbol''"
| "typeof (JBigInt i) = ''bigint''"
| "typeof (JFunction i) = ''function''"
| "typeof (JArray xs) = ''object''"
| "typeof (JObject p ps syms) = ''object''"

fun isArray :: "jsval \<Rightarrow> bool" where
  "isArray (JArray xs) = True"
| "isArray v = False"

text \<open>\<open>obj.toJSON\<close>: the own property of that name, or else the one of the prototype.\<close>

fun get_toJSON :: "jsval \<Rightarrow> jsval" where
  "get_toJSON (JObject p ps syms) =
     (case find (\<lambda>pr. pkey pr = ''toJSON'') ps of
        Some pr \<Rightarrow> pval pr
      | None \<Rightarrow> (case p of OtherPrototype f \<Rightarrow> f | _ \<Rightarrow> JUndefined))"
| "get_toJSON v = JUndefined"

text \<open>\<open>Object.keys(obj)\<close>: the own enumerable string keys.\<close>

definition keys :: "property list \<Rightarrow> string list" where
  "keys ps = map pkey (filter penumerable ps)"

text \<open>\<open>Object.getOwnPropertyNames(obj)\<close>: all own string keys.\<close>

definition getOwnPropertyNames :: "property list \<Rightarrow> string list" where
  "getOwnPropertyNames ps = map pkey ps"

text \<open>\<open>xs.join(', ')\<close> on a list of strings.\<close>

fun join :: "string list \<Rightarrow> string" where
  "join [] = []"
| "join [x] = x"
| "join (x # y # ys) = x @ '', '' @ join (y # ys)"

section \<open>Warnings\<close>

datatype impact = high | medium | low

record warning =
  wtype :: string
  wpath :: "string option"
  message :: string
  impact :: impact
  suggestion :: string

definition replacerWarning :: warning where
  "replacerWarning =
     \<lparr>wtype = ''replacer'', wpath = None,
      message = ''Replacer function prevents fast path optimization'',
      impact = high,
      suggestion = ''Remove replacer if possible, or transform data before serialization''\<rparr>"

definition spaceWarning :: warning where
  "spaceWarning =
     \<lparr>wtype = ''space'', wpath = None,
      message = ''Space/gap argument prevents fast path optimization'',
      impact = high,
      suggestion = ''Remove space parameter for compact serialization, or format after serialization''\<rparr>"

definition toJSONWarning :: "string \<Rightarrow> warning" where
  "toJSONWarning path =
     \<lparr>wtype = ''toJSON'', wpath = Some path,
      message = ''Custom toJSON() method found at '' @ path,
      impact = high,
      suggestion = ''Remove toJSON() or call it manually before serialization''\<rparr>"

definition prototypeToJSONWarning :: "string \<Rightarrow> warning" where
  "prototypeToJSONWarning path =
     \<lparr>wtype = ''prototype-toJSON'', wpath = Some path,
      message = ''Prototype has custom toJSON() at '' @ path,
      impact = high,
      suggestion = ''Use plain objects without custom prototypes''\<rparr>"

definition indexedPropertiesWarning :: "string \<Rightarrow> warning" where
  "indexedPropertiesWarning path =
     \<lparr>wtype = ''indexed-properties'', wpath = Some path,
      message = ''Object has indexed properties at '' @ path,
      impact = medium,
      suggestion = ''Use arrays for indexed data or rename keys to non-numeric strings''\<rparr>"

definition symbolKeysWarning :: "string \<Rightarrow> warning" where
  "symbolKeysWarning path =
     \<lparr>wtype = ''symbol-keys'', wpath = Some path,
      message = ''Object has Symbol keys at '' @ path,
      impact = low,
      suggestion = ''Symbols are ignored in JSON but slow down serialization''\<rparr>"

definition nonEnumerableWarning :: "string \<Rightarrow> string list \<Rightarrow> warning" where
  "nonEnumerableWarning path nonEnumerable =
     \<lparr>wtype = ''non-enumerable'', wpath = Some path,
      message = ''Non-enumerable properties found at '' @ path @ '': '' @ join nonEnumerable,
      impact = low,
      suggestion = ''These properties slow down serialization even though they'' @ [CHR 0x27] @ ''re not included''\<rparr>"

section \<open>The class \<open>JSONOptimizer\<close>\<close>

subsection \<open>\<open>_validateObject\<close>\<close>

text \<open>
  \<open>_validateObject(obj, path)\<close> pushes onto \<open>this.warnings\<close> and returns nothing. It is modelled
  by the function from the contents of the buffer before the call to its contents after
  it; \<open>push\<close> appends at the end. \<open>validateItems\<close> is the \<open>forEach\<close> over the elements of an
  array from index \<open>idx\<close> on, \<open>validateKeys\<close> the \<open>forEach\<close> over \<open>Object.keys(obj)\<close>.
\<close>

definition push :: "warning list \<Rightarrow> warning \<Rightarrow> warning list" where
  "push ws w = ws @ [w]"

fun proto_toJSON :: "proto \<Rightarrow> jsval" where
  "proto_toJSON (OtherPrototype f) = f"
| "proto_toJSON p = JUndefined"

text \<open>
  The checks of one object node, lines 67 to 131 of the source: the body of
  \<open>if (type === 'object')\<close> up to the descent into the properties.
\<close>

definition objectChecks :: "proto \<Rightarrow> property list \<Rightarrow> nat list \<Rightarrow> string \<Rightarrow> warning list \<Rightarrow> warning list" where
  "objectChecks proto ps syms path ws =
     (let obj = JObject proto ps syms;
          ws1 = (if typeof (get_toJSON obj) = ''function'' then push ws (toJSONWarning path) else ws);
          ws2 = (if proto \<noteq> NullPrototype \<and> proto \<noteq> ObjectPrototype \<and> proto \<noteq> ArrayPrototype
                 then (if typeof (proto_toJSON proto) = ''function''
                       then push ws1 (prototypeToJSONWarning path) else ws1)
                 else ws1);
          hasIndexedProps = list_ex isIndexedKey (keys ps);
          ws3 = (if hasIndexedProps \<and> \<not> isArray obj
                 then push ws2 (indexedPropertiesWarning path) else ws2);
          symbolKeys = syms;
          ws4 = (if 0 < length symbolKeys then push ws3 (symbolKeysWarning path) else ws3);
          allKeys = getOwnPropertyNames ps;
          nonEnumerable = filter (\<lambda>k. case find (\<lambda>pr. pkey pr = k) ps of
                                        None \<Rightarrow> False | Some desc \<Rightarrow> \<not> penumerable desc) allKeys
      in if 0 < length nonEnumerable
         then push ws4 (nonEnumerableWarning path nonEnumerable) else ws4)"

fun validateObject :: "jsval \<Rightarrow> string \<Rightarrow> warning list \<Rightarrow> warning list"
  and validateItems :: "jsval list \<Rightarrow> string \<Rightarrow> nat \<Rightarrow> warning list \<Rightarrow> warning list"
  and validateKeys :: "property list \<Rightarrow> string \<Rightarrow> warning list \<Rightarrow> warning list"
where
  "validateObject JNull path ws = ws"
| "validateObject JUndefined path ws = ws"
| "validateObject (JString s) path ws = ws"
| "validateObject (JNumber n) path ws = ws"
| "validateObject (JBoolean b) path ws = ws"
| "validateObject (JArray xs) path ws = validateItems xs path 0 ws"
| "validateObject (JObject proto ps syms) path ws =
     validateKeys ps path (objectChecks proto ps syms path ws)"
| "validateObject (JSymbol i) path ws = ws"
| "validateObject (JBigInt i) path ws = ws"
| "validateObject (JFunction i) path ws = ws"
| "validateItems [] path idx ws = ws"
| "validateItems (item # items) path idx ws =
     validateItems items path (Suc idx)
       (validateObject item (path @ ''['' @ decimal (int idx) @ '']'') ws)"
| "validateKeys [] path ws = ws"
| "validateKeys (Prop key v enumerable # ps) path ws =
     (if enumerable
      then validateKeys ps path (validateObject v (path @ ''.'' @ key) ws)
      else validateKeys ps path ws)"

subsection \<open>\<open>_generateSummary\<close>\<close>

definition generateSummary :: "warning list \<Rightarrow> string" where
  "generateSummary ws =
     (let highImpact = length (filter (\<lambda>w. impact w = high) ws);
          mediumImpact = length (filter (\<lambda>w. impact w = medium) ws);
          lowImpact = length (filter (\<lambda>w. impact w = low) ws)
      in if length ws = 0 then ''Object is fully optimized for V8 fast path''
         else ''Found '' @ decimal (int (length ws)) @ '' issue(s): '' @ decimal (int highImpact)
              @ '' high, '' @ decimal (int mediumImpact) @ '' medium, ''
              @ decimal (int lowImpact) @ '' low impact'')"

subsection \<open>The instance, the arrays it allocates, and \<open>validate\<close>\<close>

text \<open>
  \<open>this.warnings\<close> holds a reference to an array of warnings, and so does the field
  \<open>warnings\<close> of a result. The arrays allocated so far are the store; a reference is an
  index into it, and \<open>[]\<close> allocates at the end.
\<close>

type_synonym ref = nat
type_synonym store = "warning list list"

record JSONOptimizer =
  warnings :: ref
  strictMode :: bool

record ValidationResult =
  isOptimized :: bool
  canUseFastPath :: bool
  warnings :: ref
  summary :: string

definition alloc :: "store \<Rightarrow> ref \<times> store" where
  "alloc h = (length h, h @ [[]])"

text \<open>\<open>new JSONOptimizer({strict})\<close>.\<close>

definition constructor :: "bool \<Rightarrow> store \<Rightarrow> JSONOptimizer \<times> store" where
  "constructor strict h =
     (let (a, h1) = alloc h
      in (\<lparr>JSONOptimizer.warnings = a, strictMode = strict\<rparr>, h1))"

text \<open>A parameter with a default takes it when the argument is omitted or \<open>undefined\<close>.\<close>

definition param_default :: "jsval \<Rightarrow> jsval \<Rightarrow> jsval" where
  "param_default d arg = (if arg = JUndefined then d else arg)"

text \<open>\<open>this._validateObject(obj, path)\<close> as a call on the instance.\<close>

definition call_validateObject :: "JSONOptimizer \<Rightarrow> jsval \<Rightarrow> string \<Rightarrow> store \<Rightarrow> store" where
  "call_validateObject this obj path h =
     h[JSONOptimizer.warnings this := validateObject obj path (h ! JSONOptimizer.warnings this)]"

definition validate ::
  "JSONOptimizer \<Rightarrow> jsval \<Rightarrow> jsval \<Rightarrow> jsval \<Rightarrow> store \<Rightarrow> ValidationResult \<times> JSONOptimizer \<times> store" where
  "validate this obj replacer_arg space_arg h =
     (let replacer = param_default JNull replacer_arg;
          space = param_default JNull space_arg;
          (a, h1) = alloc h;
          this1 = this\<lparr>JSONOptimizer.warnings := a\<rparr>;
          h2 = (if replacer \<noteq> JNull
                then h1[JSONOptimizer.warnings this1 :=
                          push (h1 ! JSONOptimizer.warnings this1) replacerWarning]
                else h1);
          h3 = (if space \<noteq> JNull \<and> space \<noteq> JUndefined
                then h2[JSONOptimizer.warnings this1 :=
                          push (h2 ! JSONOptimizer.warnings this1) spaceWarning]
                else h2);
          h4 = call_validateObject this1 obj ''root'' h3;
          buf = h4 ! JSONOptimizer.warnings this1
      in (\<lparr>isOptimized = (length buf = 0),
           canUseFastPath = (length (filter (\<lambda>w. impact w = high) buf) = 0),
           ValidationResult.warnings = JSONOptimizer.warnings this1,
           summary = generateSummary buf\<rparr>,
          this1, h4))"

subsection \<open>\<open>optimize\<close>\<close>

text \<open>
  \<open>optimizeItems\<close> is \<open>obj.map(item => this.optimize(item))\<close>; \<open>optimizeKeys\<close> is the
  \<open>forEach\<close> over \<open>Object.keys(obj)\<close> that fills the fresh object \<open>optimized = {}\<close>: it
  returns the properties assigned, in the order of assignment. The line that
  \<open>console.warn\<close> prints for a skipped key is not part of the value returned.
\<close>

fun optimize :: "jsval \<Rightarrow> jsval"
  and optimizeItems :: "jsval list \<Rightarrow> jsval list"
  and optimizeKeys :: "property list \<Rightarrow> property list"
where
  "optimize (JArray xs) = JArray (optimizeItems xs)"
| "optimize (JObject proto ps syms) = JObject ObjectPrototype (optimizeKeys ps) []"
| "optimize obj = obj"
| "optimizeItems [] = []"
| "optimizeItems (item # items) = optimize item # optimizeItems items"
| "optimizeKeys [] = []"
| "optimizeKeys (Prop key v enumerable # ps) =
     (if \<not> enumerable then optimizeKeys ps
      else if isIndexedKey key then optimizeKeys ps
      else Prop key (optimize v) True # optimizeKeys ps)"

subsection \<open>\<open>stringify\<close>\<close>

text \<open>
  \<open>JSON.stringify\<close> is the serializer of the platform: a parameter of the model, a function
  of its three arguments that returns a value or throws one (\<open>Inl\<close> the value thrown).
\<close>

type_synonym serializer = "jsval \<Rightarrow> jsval \<Rightarrow> jsval \<Rightarrow> jsval + jsval"

record StringifyResult =
  json :: jsval
  validation :: ValidationResult
  optimized :: bool

definition stringify ::
  "serializer \<Rightarrow> JSONOptimizer \<Rightarrow> jsval \<Rightarrow> jsval \<Rightarrow> jsval \<Rightarrow> store
     \<Rightarrow> (jsval + StringifyResult) \<times> JSONOptimizer \<times> store" where
  "stringify JSON_stringify this obj replacer_arg space_arg h =
     (let replacer = param_default JNull replacer_arg;
          space = param_default JNull space_arg;
          (validation_v, this1, h1) = validate this obj replacer space h
      in case JSON_stringify obj replacer space of
           Inl thrown \<Rightarrow> (Inl thrown, this1, h1)
         | Inr json_v \<Rightarrow>
             (Inr \<lparr>json = json_v, validation = validation_v, optimized = isOptimized validation_v\<rparr>,
              this1, h1))"

section \<open>Auxiliary notions for the statements\<close>

definition nodeTypes :: "string set" where
  "nodeTypes = {''toJSON'', ''prototype-toJSON'', ''indexed-properties'', ''symbol-keys'', ''non-enumerable''}"

definition nonEnumerableKeys :: "property list \<Rightarrow> string list" where
  "nonEnumerableKeys ps =
     filter (\<lambda>k. case find (\<lambda>pr. pkey pr = k) ps of None \<Rightarrow> False | Some desc \<Rightarrow> \<not> penumerable desc)
       (getOwnPropertyNames ps)"

section \<open>Evaluation and structure lemmas\<close>

declare numDigits.simps [simp del] showDigits.simps [simp del]
lemma numDigits_stop: "x \<le> 0 \<or> b \<le> 1 \<Longrightarrow> numDigits b x = 0"
  by (subst numDigits.simps) simp
lemma numDigits_step: "0 < x \<Longrightarrow> 1 < b \<Longrightarrow> numDigits b x = 1 + numDigits b (x div b)"
  by (subst numDigits.simps) simp
lemma showDigits_stop: "n < 10 \<Longrightarrow> showDigits n acc = digitChar n # acc"
  by (subst showDigits.simps) simp
lemma showDigits_step: "\<not> n < 10 \<Longrightarrow> showDigits n acc = showDigits (n div 10) (digitChar (n mod 10) # acc)"
  by (subst showDigits.simps) simp
lemma replicate_numeral_eval: "replicate (numeral k) x = x # replicate (pred_numeral k) x"
  by (simp add: numeral_eq_Suc)
lemma ceiling_one_divide_numeral: "\<lceil>1 / (numeral b :: real)\<rceil> = - (- 1 div numeral b)"
  using ceiling_divide_eq_div [of 1 "numeral b"] by simp
lemmas num_eval = replicate_numeral_eval ceiling_one_divide_numeral numDigits_stop numDigits_step showDigits_stop showDigits_step digitChar_def
  floorlog2_def floorlog10_def pow2_def pow10_def roundFrom_def round_half_even_def overflow_def
  roundAt_def round64_def
  isDigit_def isWhiteSpace_def trimString_def digitsValue_def decDigit_def hexDigit_def radixValue_def
  decimalDigits_def signedInteger_def exponentPart_def decimalValue_def afterInteger_def
  unsignedDecimal_def signedDecimal_def radixPrefix_def radixLiteral_def stringToNumber_def
  Number_def isNaN_def geZero_def decimal_def roundsTo_def candidatesFrom_def scale_def candidates_def
  closer_def closest_def digitsAndPoint_def shortestAt_def shortest_def exponential_def layout_def
  toString_def String_def numberTest_def isIndexedKey_def

lemma objectChecks_append:
  "objectChecks proto ps syms path ws = ws @ objectChecks proto ps syms path []"
  by (simp add: objectChecks_def push_def Let_def del: get_toJSON.simps)

lemma validate_append_all:
  fixes wd :: "warning list"
  shows "\<forall>ws. validateObject obj path ws = ws @ validateObject obj path []"
    and "\<forall>ws. validateItems items path idx ws = ws @ validateItems items path idx []"
    and "\<forall>ws. validateKeys ps path ws = ws @ validateKeys ps path []"
proof (induct obj path wd and items path idx wd and ps path wd
       rule: validateObject_validateItems_validateKeys.induct)
  case (6 xs path ws)
  have b: "\<And>w. validateItems xs path 0 w = w @ validateItems xs path 0 []"
    using 6 by blast
  show ?case
  proof
    fix ws'
    show "validateObject (JArray xs) path ws' = ws' @ validateObject (JArray xs) path []"
      using b [of ws'] by simp
  qed
next
  case (7 proto ps syms path ws)
  have b: "\<And>w. validateKeys ps path w = w @ validateKeys ps path []"
    using 7 by blast
  show ?case
  proof
    fix ws'
    show "validateObject (JObject proto ps syms) path ws'
          = ws' @ validateObject (JObject proto ps syms) path []"
      using b [of "objectChecks proto ps syms path ws'"] b [of "objectChecks proto ps syms path []"]
        objectChecks_append [of proto ps syms path ws'] by simp
  qed
next
  case (12 item items path idx ws)
  let ?p = "path @ ''['' @ decimal (int idx) @ '']''"
  have a: "\<And>w. validateObject item ?p w = w @ validateObject item ?p []"
    using 12 by blast
  have b: "\<And>w. validateItems items path (Suc idx) w = w @ validateItems items path (Suc idx) []"
    using 12 by blast
  show ?case
  proof
    fix ws'
    show "validateItems (item # items) path idx ws' = ws' @ validateItems (item # items) path idx []"
      using a [of ws'] b [of "validateObject item ?p ws'"] b [of "validateObject item ?p []"] by simp
  qed
next
  case (14 key v enumerable ps path ws)
  let ?p = "path @ ''.'' @ key"
  show ?case
  proof (cases enumerable)
    case True
    have a: "\<And>w. validateObject v ?p w = w @ validateObject v ?p []"
      using 14 True by blast
    have b: "\<And>w. validateKeys ps path w = w @ validateKeys ps path []"
      using 14 True by blast
    show ?thesis
    proof
      fix ws'
      show "validateKeys (Prop key v enumerable # ps) path ws'
            = ws' @ validateKeys (Prop key v enumerable # ps) path []"
        using True a [of ws'] b [of "validateObject v ?p ws'"] b [of "validateObject v ?p []"] by simp
    qed
  next
    case False
    have b: "\<And>w. validateKeys ps path w = w @ validateKeys ps path []"
      using 14 False by blast
    show ?thesis
    proof
      fix ws'
      show "validateKeys (Prop key v enumerable # ps) path ws'
            = ws' @ validateKeys (Prop key v enumerable # ps) path []"
        using False b [of ws'] by simp
    qed
  qed
qed simp_all

lemma validateObject_append: "validateObject obj path ws = ws @ validateObject obj path []"
  using validate_append_all(1) by blast

lemma param_default_not_undefined [simp]: "param_default JNull arg \<noteq> JUndefined"
  by (simp add: param_default_def)

lemma validate_eq:
  "validate this obj replacer_arg space_arg h =
     (let buf = (if param_default JNull replacer_arg \<noteq> JNull then [replacerWarning] else [])
              @ (if param_default JNull space_arg \<noteq> JNull then [spaceWarning] else [])
              @ validateObject obj ''root'' []
      in (\<lparr>isOptimized = (buf = []),
           canUseFastPath = (filter (\<lambda>w. impact w = high) buf = []),
           ValidationResult.warnings = length h,
           summary = generateSummary buf\<rparr>,
          this\<lparr>JSONOptimizer.warnings := length h\<rparr>, h @ [buf]))"
proof -
  have a: "\<And>ws. validateObject obj ''root'' ws = ws @ validateObject obj ''root'' []"
    using validateObject_append by blast
  show ?thesis
    by (simp add: validate_def alloc_def call_validateObject_def push_def Let_def nth_append
        a [of "[replacerWarning]"] a [of "[spaceWarning]"] a [of "[replacerWarning, spaceWarning]"])
qed

lemma validateItems_append: "validateItems items path idx ws = ws @ validateItems items path idx []"
  using validate_append_all(2) by blast

lemma validateKeys_append: "validateKeys ps path ws = ws @ validateKeys ps path []"
  using validate_append_all(3) by blast

lemma validateObject_JObject_nil:
  "validateObject (JObject proto ps syms) path [] =
     objectChecks proto ps syms path [] @ validateKeys ps path []"
  using validateKeys_append [of ps path "objectChecks proto ps syms path []"] by simp

lemma validateItems_Cons_nil:
  "validateItems (item # items) path idx [] =
     validateObject item (path @ ''['' @ decimal (int idx) @ '']'') []
     @ validateItems items path (Suc idx) []"
  using validateItems_append [of items path "Suc idx"
      "validateObject item (path @ ''['' @ decimal (int idx) @ '']'') []"] by simp

lemma validateKeys_Cons_nil:
  "validateKeys (Prop key v enumerable # ps) path [] =
     (if enumerable then validateObject v (path @ ''.'' @ key) [] else [])
     @ validateKeys ps path []"
  using validateKeys_append [of ps path "validateObject v (path @ ''.'' @ key) []"] by simp

lemma objectChecks_nil:
  "objectChecks proto ps syms path [] =
     (if typeof (get_toJSON (JObject proto ps syms)) = ''function'' then [toJSONWarning path] else [])
     @ (if proto \<noteq> NullPrototype \<and> proto \<noteq> ObjectPrototype \<and> proto \<noteq> ArrayPrototype
           \<and> typeof (proto_toJSON proto) = ''function''
        then [prototypeToJSONWarning path] else [])
     @ (if list_ex isIndexedKey (keys ps) then [indexedPropertiesWarning path] else [])
     @ (if syms \<noteq> [] then [symbolKeysWarning path] else [])
     @ (if nonEnumerableKeys ps \<noteq> [] then [nonEnumerableWarning path (nonEnumerableKeys ps)] else [])"
  by (simp add: objectChecks_def push_def Let_def nonEnumerableKeys_def del: get_toJSON.simps)

lemma warning_fields [simp]:
  "wtype replacerWarning = ''replacer''" "wpath replacerWarning = None" "impact replacerWarning = high"
  "wtype spaceWarning = ''space''" "wpath spaceWarning = None" "impact spaceWarning = high"
  "wtype (toJSONWarning p) = ''toJSON''" "wpath (toJSONWarning p) = Some p" "impact (toJSONWarning p) = high"
  "wtype (prototypeToJSONWarning p) = ''prototype-toJSON''" "wpath (prototypeToJSONWarning p) = Some p"
  "impact (prototypeToJSONWarning p) = high"
  "wtype (indexedPropertiesWarning p) = ''indexed-properties''" "wpath (indexedPropertiesWarning p) = Some p"
  "impact (indexedPropertiesWarning p) = medium"
  "wtype (symbolKeysWarning p) = ''symbol-keys''" "wpath (symbolKeysWarning p) = Some p"
  "impact (symbolKeysWarning p) = low"
  "wtype (nonEnumerableWarning p ks) = ''non-enumerable''" "wpath (nonEnumerableWarning p ks) = Some p"
  "impact (nonEnumerableWarning p ks) = low"
  by (simp_all add: replacerWarning_def spaceWarning_def toJSONWarning_def prototypeToJSONWarning_def
      indexedPropertiesWarning_def symbolKeysWarning_def nonEnumerableWarning_def)

lemma objectChecks_members:
  "w \<in> set (objectChecks proto ps syms path []) \<Longrightarrow> wtype w \<in> nodeTypes \<and> wpath w = Some path"
  unfolding objectChecks_nil nodeTypes_def by (auto split: if_splits)

lemma validate_members_all:
  fixes wd :: "warning list"
  shows "\<forall>w \<in> set (validateObject obj path []). wtype w \<in> nodeTypes \<and> (\<exists>s. wpath w = Some (path @ s))"
    and "\<forall>w \<in> set (validateItems items path idx []). wtype w \<in> nodeTypes \<and> (\<exists>s. wpath w = Some (path @ ''['' @ s))"
    and "\<forall>w \<in> set (validateKeys ps path []). wtype w \<in> nodeTypes \<and> (\<exists>s. wpath w = Some (path @ ''.'' @ s))"
proof (induct obj path wd and items path idx wd and ps path wd
       rule: validateObject_validateItems_validateKeys.induct)
  case (6 xs path ws)
  then show ?case by fastforce
next
  case (7 proto ps syms path ws)
  show ?case
  proof
    fix w assume "w \<in> set (validateObject (JObject proto ps syms) path [])"
    then consider "w \<in> set (objectChecks proto ps syms path [])" | "w \<in> set (validateKeys ps path [])"
      by (simp only: validateObject_JObject_nil set_append Un_iff) blast
    then show "wtype w \<in> nodeTypes \<and> (\<exists>s. wpath w = Some (path @ s))"
    proof cases
      case 1
      then show ?thesis using objectChecks_members [of w proto ps syms path] by simp
    next
      case 2
      then show ?thesis using 7 by blast
    qed
  qed
next
  case (12 item items path idx ws)
  let ?p = "path @ ''['' @ decimal (int idx) @ '']''"
  show ?case
  proof
    fix w assume "w \<in> set (validateItems (item # items) path idx [])"
    then consider "w \<in> set (validateObject item ?p [])" | "w \<in> set (validateItems items path (Suc idx) [])"
      by (simp only: validateItems_Cons_nil set_append Un_iff) blast
    then show "wtype w \<in> nodeTypes \<and> (\<exists>s. wpath w = Some (path @ ''['' @ s))"
    proof cases
      case 1
      then obtain s where "wtype w \<in> nodeTypes" "wpath w = Some (?p @ s)" using 12 by blast
      then show ?thesis by simp
    next
      case 2
      then show ?thesis using 12 by blast
    qed
  qed
next
  case (14 key v enumerable ps path ws)
  let ?p = "path @ ''.'' @ key"
  show ?case
  proof
    fix w assume "w \<in> set (validateKeys (Prop key v enumerable # ps) path [])"
    then consider "enumerable" "w \<in> set (validateObject v ?p [])" | "w \<in> set (validateKeys ps path [])"
      by (cases enumerable) (simp_all only: validateKeys_Cons_nil set_append Un_iff if_True if_False list.set empty_iff, blast+)
    then show "wtype w \<in> nodeTypes \<and> (\<exists>s. wpath w = Some (path @ ''.'' @ s))"
    proof cases
      case 1
      then obtain s where "wtype w \<in> nodeTypes" "wpath w = Some (?p @ s)" using 14 by blast
      then show ?thesis by simp
    next
      case 2
      then show ?thesis using 14 by (cases enumerable) blast+
    qed
  qed
qed simp_all

lemma impact_counts:
  "length ws = length (filter (\<lambda>w. impact w = high) ws)
             + length (filter (\<lambda>w. impact w = medium) ws)
             + length (filter (\<lambda>w. impact w = low) ws)"
proof (induction ws)
  case Nil
  show ?case by simp
next
  case (Cons w ws)
  then show ?case by (cases "impact w") simp_all
qed

lemma decimal_small:
  "decimal 0 = ''0''" "decimal 1 = ''1''" "decimal 2 = ''2''" "decimal 3 = ''3''"
  by (simp_all add: decimal_def showDigits_stop digitChar_def)


lemma isIndexedKey_0: "isIndexedKey ''0''"
  by (simp add: num_eval)


section \<open>The claims\<close>

text \<open>
  Claim C1. For every call \<open>validate(tree, replacer, space)\<close> the result has \<open>isOptimized\<close>
  true iff its warning list is empty and \<open>canUseFastPath\<close> true iff no warning of the list
  has impact \<open>high\<close>; so \<open>isOptimized\<close> implies \<open>canUseFastPath\<close>. The converse fails:
  some tree gives a result with \<open>canUseFastPath\<close> and without \<open>isOptimized\<close>.
\<close>

theorem validate_flags:
  assumes "validate this obj replacer space h = (r, this', h')"
  shows "(isOptimized r \<longleftrightarrow> h' ! ValidationResult.warnings r = [])
       \<and> (canUseFastPath r \<longleftrightarrow> (\<forall>w \<in> set (h' ! ValidationResult.warnings r). impact w \<noteq> high))
       \<and> (isOptimized r \<longrightarrow> canUseFastPath r)
       \<and> (\<exists>obj2 r2 this2 h2. validate this obj2 JNull JNull h = (r2, this2, h2)
             \<and> canUseFastPath r2 \<and> \<not> isOptimized r2)"
proof -
  have "\<exists>r2 this2 h2.
          validate this (JObject ObjectPrototype [Prop ''0'' JNull True] []) JNull JNull h = (r2, this2, h2)
          \<and> canUseFastPath r2 \<and> \<not> isOptimized r2"
    by (simp add: validate_eq Let_def param_default_def validateObject_JObject_nil objectChecks_nil
        keys_def isIndexedKey_0 nonEnumerableKeys_def getOwnPropertyNames_def
        del: validateObject.simps(7))
  then have ex: "\<exists>obj2 r2 this2 h2. validate this obj2 JNull JNull h = (r2, this2, h2)
             \<and> canUseFastPath r2 \<and> \<not> isOptimized r2"
    by blast
  define buf where "buf = h' ! ValidationResult.warnings r"
  from assms have r: "isOptimized r = (buf = [])"
      "canUseFastPath r = (filter (\<lambda>w. impact w = high) buf = [])"
    unfolding buf_def validate_eq Let_def by auto
  have "canUseFastPath r \<longleftrightarrow> (\<forall>w \<in> set buf. impact w \<noteq> high)"
    by (simp add: r filter_empty_conv)
  moreover have "isOptimized r \<longrightarrow> canUseFastPath r"
    by (simp add: r)
  ultimately show ?thesis
    using ex r(1) unfolding buf_def by blast
qed

theorem validate_flags_witness:
  "isOptimized (fst (validate \<lparr>JSONOptimizer.warnings = 0, strictMode = False\<rparr> (JString ''x'') JNull JNull [[]]))
   \<and> canUseFastPath (fst (validate \<lparr>JSONOptimizer.warnings = 0, strictMode = False\<rparr> (JString ''x'') JNull JNull [[]]))"
proof -
  obtain r t h' where v: "validate \<lparr>JSONOptimizer.warnings = 0, strictMode = False\<rparr> (JString ''x'') JNull JNull [[]] = (r, t, h')"
    by (cases "validate \<lparr>JSONOptimizer.warnings = 0, strictMode = False\<rparr> (JString ''x'') JNull JNull [[]]") auto
  have o: "isOptimized r"
    using v by (auto simp: validate_eq Let_def param_default_def)
  from validate_flags [OF v] o have "canUseFastPath r" by blast
  with o v show ?thesis by simp
qed

text \<open>
  Claim C6. The summary of a result is a function of its warning list alone: the fixed
  message when the list is empty, and otherwise the number of warnings followed by the
  numbers of high, medium and low ones, in this order; with 2 high, 1 medium and 0 low
  warnings it is \<open>Found 3 issue(s): 2 high, 1 medium, 0 low impact\<close>.
\<close>

theorem summary_of_warnings:
  "(validate this obj replacer space h = (r, this', h')
      \<longrightarrow> summary r = generateSummary (h' ! ValidationResult.warnings r))
   \<and> generateSummary [] = ''Object is fully optimized for V8 fast path''
   \<and> (ws \<noteq> [] \<longrightarrow>
        generateSummary ws =
          ''Found '' @ decimal (int (length ws)) @ '' issue(s): ''
          @ decimal (int (length (filter (\<lambda>w. impact w = high) ws))) @ '' high, ''
          @ decimal (int (length (filter (\<lambda>w. impact w = medium) ws))) @ '' medium, ''
          @ decimal (int (length (filter (\<lambda>w. impact w = low) ws))) @ '' low impact'')
   \<and> (length (filter (\<lambda>w. impact w = high) ws) = 2
        \<and> length (filter (\<lambda>w. impact w = medium) ws) = 1
        \<and> length (filter (\<lambda>w. impact w = low) ws) = 0
        \<longrightarrow> generateSummary ws = ''Found 3 issue(s): 2 high, 1 medium, 0 low impact'')"
proof -
  have a: "validate this obj replacer space h = (r, this', h')
      \<longrightarrow> summary r = generateSummary (h' ! ValidationResult.warnings r)"
    unfolding validate_eq Let_def by auto
  have b: "generateSummary [] = ''Object is fully optimized for V8 fast path''"
    by (simp add: generateSummary_def)
  have c: "ws \<noteq> [] \<longrightarrow>
        generateSummary ws =
          ''Found '' @ decimal (int (length ws)) @ '' issue(s): ''
          @ decimal (int (length (filter (\<lambda>w. impact w = high) ws))) @ '' high, ''
          @ decimal (int (length (filter (\<lambda>w. impact w = medium) ws))) @ '' medium, ''
          @ decimal (int (length (filter (\<lambda>w. impact w = low) ws))) @ '' low impact''"
    by (simp add: generateSummary_def Let_def)
  have d: "generateSummary ws = ''Found 3 issue(s): 2 high, 1 medium, 0 low impact''"
    if "length (filter (\<lambda>w. impact w = high) ws) = 2"
      and "length (filter (\<lambda>w. impact w = medium) ws) = 1"
      and "length (filter (\<lambda>w. impact w = low) ws) = 0"
  proof -
    from that impact_counts [of ws] have l: "length ws = 3" by simp
    then have "ws \<noteq> []" by auto
    with c that l show ?thesis by (simp add: decimal_small)
  qed
  from a b c d show ?thesis by blast
qed

theorem summary_of_warnings_witness:
  "length (filter (\<lambda>w. impact w = high) [replacerWarning, spaceWarning, indexedPropertiesWarning ''root'']) = 2
   \<and> length (filter (\<lambda>w. impact w = medium) [replacerWarning, spaceWarning, indexedPropertiesWarning ''root'']) = 1
   \<and> length (filter (\<lambda>w. impact w = low) [replacerWarning, spaceWarning, indexedPropertiesWarning ''root'']) = 0
   \<and> generateSummary [replacerWarning, spaceWarning, indexedPropertiesWarning ''root'']
       = ''Found 3 issue(s): 2 high, 1 medium, 0 low impact''"
proof -
  let ?ws = "[replacerWarning, spaceWarning, indexedPropertiesWarning ''root'']"
  have c: "length (filter (\<lambda>w. impact w = high) ?ws) = 2
        \<and> length (filter (\<lambda>w. impact w = medium) ?ws) = 1
        \<and> length (filter (\<lambda>w. impact w = low) ?ws) = 0"
    by simp
  with summary_of_warnings [where ws = ?ws]
  have "generateSummary ?ws = ''Found 3 issue(s): 2 high, 1 medium, 0 low impact''" by blast
  with c show ?thesis by blast
qed

end
